theory Spec2Isabelle
  imports Complex_Main "HOL-Library.Multiset"
begin

section \<open>FYP analysis system: the analyzer of main.py\<close>

text \<open>
  A shallow embedding of class \<open>FYPAnalyzer\<close> (main.py): the constructor, the domain
  categorisation of one record (\<open>categorize_by_domain\<close>) and the pairwise similarity
  report (\<open>calculate_similarity\<close> with \<open>get_project_domains\<close>).

  Conventions of the model.
  \<^item> Python strings are \<open>string\<close>; the text is taken to be ASCII, so \<open>str.lower\<close> acts
    on the letters A to Z and \<open>str.strip\<close> on the ASCII white space.
  \<^item> Python dictionaries keep insertion order, so a dictionary is an association list
    whose keys are pairwise different; \<open>dict_set\<close> is the assignment \<open>d[k] = v\<close>.
  \<^item> A similarity value is a \<open>real\<close>: every finite float is one, and \<open>>\<close> on floats
    is \<open>>\<close> on the reals they denote. Rounding to three decimals is exact decimal
    rounding, half to even.
  \<^item> What the libraries compute is a parameter: the parsed answer of the Gemini model,
    the cosine matrix of the TF-IDF vectors, and the reordering done by
    \<open>DataFrame.sort_values\<close>.
  \<^item> The columns of the data frame hold strings (load_data fills missing titles and
    scopes with the empty string); an absent optional column is the empty string or
    \<open>None\<close>, as \<open>row.get\<close> with its default gives.
\<close>

subsection \<open>Strings\<close>

definition lower_char :: "char \<Rightarrow> char" where
  "lower_char c =
     (case map_of (zip ''ABCDEFGHIJKLMNOPQRSTUVWXYZ'' ''abcdefghijklmnopqrstuvwxyz'') c of
        None \<Rightarrow> c
      | Some d \<Rightarrow> d)"

definition lower :: "string \<Rightarrow> string" where
  \<comment> \<open>\<open>str.lower()\<close>\<close>
  "lower s = map lower_char s"

definition isspace :: "char \<Rightarrow> bool" where
  \<comment> \<open>the ASCII characters that \<open>str.strip()\<close> removes: tab, line feed, vertical tab,
      form feed, carriage return, the four separators 28 to 31, and the blank\<close>
  "isspace c = (of_char c \<in> {9, 10, 11, 12, 13, 28, 29, 30, 31, 32 :: nat})"

definition strip :: "string \<Rightarrow> string" where
  \<comment> \<open>\<open>str.strip()\<close>\<close>
  "strip s = rev (dropWhile isspace (rev (dropWhile isspace s)))"

fun startswith :: "string \<Rightarrow> string \<Rightarrow> bool" where
  "startswith s [] = True"
| "startswith [] (c # p) = False"
| "startswith (x # s) (c # p) = (x = c \<and> startswith s p)"

fun contains :: "string \<Rightarrow> string \<Rightarrow> bool" where
  \<comment> \<open>\<open>sub in s\<close>\<close>
  "contains [] sub = (sub = [])"
| "contains (c # s) sub = (startswith (c # s) sub \<or> contains s sub)"

fun count_from :: "string \<Rightarrow> string \<Rightarrow> nat" where
  \<comment> \<open>the scan of \<open>str.count\<close> for a non-empty \<open>sub\<close>: left to right, and after a
      match the scan resumes behind the matched text\<close>
  "count_from sub [] = 0"
| "count_from sub (c # s) =
     (if startswith (c # s) sub then 1 + count_from sub (drop (length sub - 1) s)
      else count_from sub s)"

definition count :: "string \<Rightarrow> string \<Rightarrow> nat" where
  \<comment> \<open>\<open>s.count(sub)\<close>; the empty string is counted between all characters\<close>
  "count s sub = (if sub = [] then length s + 1 else count_from sub s)"

definition occurrences :: "string \<Rightarrow> string \<Rightarrow> nat" where
  \<comment> \<open>The count in the words of the specification: every position at which \<open>sub\<close>
      occurs in \<open>s\<close>, overlapping occurrences included.\<close>
  "occurrences s sub = length (filter (\<lambda>i. startswith (drop i s) sub) [0 ..< length s])"

fun str_nat :: "nat \<Rightarrow> string" where
  \<comment> \<open>\<open>str(n)\<close> of a non-negative integer\<close>
  "str_nat n =
     (if n < 10 then [''0123456789'' ! n] else str_nat (n div 10) @ [''0123456789'' ! (n mod 10)])"

subsection \<open>Dictionaries\<close>

fun dict_set :: "'k \<Rightarrow> 'v \<Rightarrow> ('k \<times> 'v) list \<Rightarrow> ('k \<times> 'v) list" where
  \<comment> \<open>\<open>d[k] = v\<close>: a present key keeps its place, a new key goes to the end\<close>
  "dict_set k v [] = [(k, v)]"
| "dict_set k v ((k', v') # d) =
     (if k' = k then (k, v) # d else (k', v') # dict_set k v d)"

definition keys :: "('k \<times> 'v) list \<Rightarrow> 'k set" where
  "keys d = fst ` set d"

subsection \<open>The analyzer and its constructor\<close>

type_synonym taxonomy = "(string \<times> string list) list"

record analyzer =
  gemini_api_key :: "string option"
  gemini_model :: bool
  similarity_threshold :: real
  domain_keywords :: taxonomy

definition predefined_domain_keywords :: taxonomy where
  \<comment> \<open>the literal assigned to \<open>self.domain_keywords\<close> in \<open>__init__\<close>\<close>
  "predefined_domain_keywords =
    [(''Artificial Intelligence & Machine Learning'',
        [''ai'', ''artificial intelligence'', ''machine learning'', ''ml'', ''deep learning'',
         ''neural network'', ''nlp'', ''natural language processing'', ''computer vision'',
         ''recommendation system'', ''classification'', ''prediction'', ''clustering'',
         ''generative ai'', ''llm'', ''large language model'']),
     (''Web Development'',
        [''web'', ''website'', ''web application'', ''frontend'', ''backend'', ''html'', ''css'',
         ''javascript'', ''react'', ''angular'', ''vue'', ''nodejs'', ''django'', ''flask'',
         ''api'', ''rest'', ''graphql'', ''responsive'']),
     (''Mobile Development'',
        [''mobile'', ''android'', ''ios'', ''flutter'', ''react native'', ''kotlin'', ''swift'',
         ''mobile app'', ''smartphone'', ''tablet'', ''cross-platform'']),
     (''Cybersecurity'',
        [''security'', ''cybersecurity'', ''encryption'', ''authentication'',
         ''penetration testing'', ''vulnerability'', ''firewall'', ''intrusion detection'',
         ''malware'', ''forensics'', ''risk assessment'', ''compliance'', ''iso 27001'', ''gdpr'']),
     (''Data Science & Analytics'',
        [''data science'', ''analytics'', ''big data'', ''data mining'', ''statistics'',
         ''visualization'', ''dashboard'', ''business intelligence'', ''etl'', ''data warehouse'',
         ''pandas'', ''numpy'', ''matplotlib'', ''tableau'', ''power bi'']),
     (''Internet of Things (IoT)'',
        [''iot'', ''internet of things'', ''sensor'', ''embedded'', ''arduino'', ''raspberry pi'',
         ''microcontroller'', ''smart home'', ''automation'', ''monitoring'', ''rfid'',
         ''bluetooth'']),
     (''Blockchain & Cryptocurrency'',
        [''blockchain'', ''cryptocurrency'', ''bitcoin'', ''ethereum'', ''smart contract'',
         ''decentralized'', ''crypto'', ''nft'', ''defi'', ''web3'']),
     (''Game Development'',
        [''game'', ''gaming'', ''unity'', ''unreal'', ''game development'', ''vr'', ''ar'',
         ''virtual reality'', ''augmented reality'', ''3d'', ''simulation'']),
     (''Healthcare & Medical'',
        [''health'', ''healthcare'', ''medical'', ''patient'', ''diagnosis'', ''telemedicine'',
         ''electronic health record'', ''ehr'', ''medical imaging'', ''drug'', ''pharmacy'']),
     (''E-commerce & Business'',
        [''ecommerce'', ''e-commerce'', ''online shop'', ''marketplace'', ''inventory'',
         ''supply chain'', ''crm'', ''erp'', ''business process'', ''payment'']),
     (''Education & E-learning'',
        [''education'', ''learning'', ''e-learning'', ''lms'', ''student'', ''teacher'',
         ''course'', ''quiz'', ''examination'', ''classroom'', ''school'', ''university'']),
     (''Social Media & Communication'',
        [''social media'', ''chat'', ''messaging'', ''communication'', ''social network'',
         ''forum'', ''blog'', ''community'', ''collaboration'']),
     (''Cloud Computing'',
        [''cloud'', ''aws'', ''azure'', ''google cloud'', ''docker'', ''kubernetes'',
         ''microservices'', ''serverless'', ''saas'', ''paas'', ''iaas'']),
     (''Computer Vision'',
        [''computer vision'', ''image processing'', ''object detection'', ''face recognition'',
         ''ocr'', ''image classification'', ''video analysis'', ''opencv'']),
     (''Sports & Fitness'',
        [''sports'', ''fitness'', ''exercise'', ''training'', ''coaching'', ''athlete'',
         ''performance'', ''cricket'', ''football'', ''basketball'', ''workout''])]"

definition init :: "string option \<Rightarrow> bool \<Rightarrow> bool \<Rightarrow> analyzer" where
  \<comment> \<open>\<open>FYPAnalyzer.__init__(gemini_api_key)\<close>. \<open>GEMINI_AVAILABLE\<close> says whether the
      import of the client library succeeded and \<open>genai_ok\<close> whether configuring it and
      creating the model raised no exception; an exception there is caught and leaves
      \<open>gemini_model = None\<close>. No path of the constructor raises.\<close>
  "init api_key GEMINI_AVAILABLE genai_ok =
     \<lparr>gemini_api_key = api_key,
      gemini_model =
        (case api_key of
           None \<Rightarrow> False
         | Some k \<Rightarrow> k \<noteq> [] \<and> GEMINI_AVAILABLE \<and> genai_ok),
      similarity_threshold = 3 / 10,
      domain_keywords = predefined_domain_keywords\<rparr>"

definition set_similarity_threshold :: "real \<Rightarrow> analyzer \<Rightarrow> analyzer" where
  \<comment> \<open>the assignment \<open>analyzer.similarity_threshold = t\<close> by which demo.py (line 23) and
      web_app.py (line 113) configure the threshold after construction\<close>
  "set_similarity_threshold t a = a\<lparr>similarity_threshold := t\<rparr>"

subsection \<open>Domain categorisation of one record\<close>

record row =
  short_title :: string
  project_title :: string
  project_scope :: string
  cleaned_title :: string
  cleaned_scope :: string
  existing_domain :: "string option"
    \<comment> \<open>column \<open>primary_domain\<close> of the input; \<open>None\<close> when the column is absent or the
        cell is empty (\<open>pd.notna\<close> fails)\<close>

record dataframe =
  has_short_title :: bool
    \<comment> \<open>whether the input has a \<open>short_title\<close> column; without it \<open>short_title\<close> of the
        rows is not read\<close>
  index_label :: "nat \<Rightarrow> nat"
    \<comment> \<open>the index label of the row at a position, which \<open>df.iterrows()\<close> yields as
        \<open>idx\<close>; labels are taken to be non-negative integers, and the frame that
        \<open>load_data\<close> reads has the labels 0, 1, 2, ...\<close>
  rows :: "row list"

datatype evidence = Reasoning string | Keywords "string list"

record confidence =
  score :: int
  evidence :: evidence
  method_tag :: string
    \<comment> \<open>the key \<open>method\<close> of the entry\<close>

type_synonym confidence_scores = "(string \<times> confidence) list"

record domain_info =
  name :: "string option"
  confidence :: "int option"
  reasoning :: "string option"

record gemini_result =
  gemini_domains :: "domain_info list option"
  gemini_primary_domain :: "string option"
  gemini_summary :: "string option"

text \<open>
  The parsed answer of the model is a JSON object with the keys of the prompt's schema
  and values of the schema's types: a list of objects under \<open>domains\<close>, strings for the
  names and reasons, an integer confidence. Any key may be missing (\<open>None\<close>), and
  \<open>dict.get\<close> then gives its default. On an answer of another shape the Python raises
  out of \<open>categorize_by_domain\<close>; such answers are not values of these types.
\<close>

definition get :: "'a option \<Rightarrow> 'a \<Rightarrow> 'a" where
  \<comment> \<open>\<open>d.get(key, default)\<close>, on the looked-up key\<close>
  "get v dflt = (case v of None \<Rightarrow> dflt | Some x \<Rightarrow> x)"

definition truthy :: "gemini_result option \<Rightarrow> bool" where
  \<comment> \<open>\<open>if gemini_result:\<close> holds for a dictionary with at least one key\<close>
  "truthy r =
     (case r of
        None \<Rightarrow> False
      | Some g \<Rightarrow>
          (case (gemini_domains g, gemini_primary_domain g, gemini_summary g) of
             (None, None, None) \<Rightarrow> False
           | _ \<Rightarrow> True))"

definition categorize_with_gemini ::
  "analyzer \<Rightarrow> (string \<Rightarrow> string \<Rightarrow> gemini_result option) \<Rightarrow> string \<Rightarrow> string \<Rightarrow> gemini_result option" where
  \<comment> \<open>\<open>generate\<close> is the call of the model with the parsing of its answer: \<open>None\<close> when
      the call or \<open>json.loads\<close> raises (both exceptions are caught and give \<open>None\<close>)\<close>
  "categorize_with_gemini a generate title scope =
     (if \<not> gemini_model a then None else generate title scope)"

fun gemini_loop ::
  "domain_info list \<Rightarrow> string list \<times> confidence_scores \<Rightarrow> string list \<times> confidence_scores" where
  \<comment> \<open>\<open>for domain_info in gemini_result.get('domains', [])\<close>\<close>
  "gemini_loop [] acc = acc"
| "gemini_loop (domain_info # rest) (matched_domains, confidence_scores) =
     (let domain_name = get (name domain_info) [];
          conf = get (confidence domain_info) 0;
          reason = get (reasoning domain_info) []
      in if domain_name \<noteq> [] \<and> 6 \<le> conf
         then gemini_loop rest
                (matched_domains @ [domain_name],
                 dict_set domain_name
                   \<lparr>score = conf, evidence = Reasoning reason, method_tag = ''gemini_ai''\<rparr>
                   confidence_scores)
         else gemini_loop rest (matched_domains, confidence_scores))"

definition gemini_branch :: "gemini_result \<Rightarrow> string list \<times> confidence_scores" where
  \<comment> \<open>the body of \<open>if gemini_result:\<close>\<close>
  "gemini_branch g =
     (let (matched_domains, confidence_scores) = gemini_loop (get (gemini_domains g) []) ([], []);
          primary_domain = get (gemini_primary_domain g) []
      in if primary_domain \<noteq> [] \<and> primary_domain \<notin> set matched_domains
         then (primary_domain # matched_domains,
               dict_set primary_domain
                 \<lparr>score = 8, evidence = Reasoning ''Primary domain identified by Gemini AI'',
                  method_tag = ''gemini_ai''\<rparr>
                 confidence_scores)
         else (matched_domains, confidence_scores))"

fun keyword_loop :: "string \<Rightarrow> string list \<Rightarrow> nat \<times> string list \<Rightarrow> nat \<times> string list" where
  \<comment> \<open>\<open>for keyword in keywords\<close>, on the pair \<open>(score, matched_keywords)\<close>\<close>
  "keyword_loop combined_text [] acc = acc"
| "keyword_loop combined_text (keyword # rest) (sc, matched_keywords) =
     (let c = count combined_text (lower keyword)
      in if 0 < c then keyword_loop combined_text rest (sc + c, matched_keywords @ [keyword])
         else keyword_loop combined_text rest (sc, matched_keywords))"

fun domain_loop ::
  "string \<Rightarrow> taxonomy \<Rightarrow> string list \<times> confidence_scores \<Rightarrow> string list \<times> confidence_scores" where
  \<comment> \<open>\<open>for domain, keywords in self.domain_keywords.items()\<close>\<close>
  "domain_loop combined_text [] acc = acc"
| "domain_loop combined_text ((domain, keywords) # rest) (matched_domains, confidence_scores) =
     (let (sc, matched_keywords) = keyword_loop combined_text keywords (0, [])
      in if 0 < sc
         then domain_loop combined_text rest
                (matched_domains @ [domain],
                 dict_set domain
                   \<lparr>score = int sc, evidence = Keywords matched_keywords,
                    method_tag = ''keyword_matching''\<rparr>
                   confidence_scores)
         else domain_loop combined_text rest (matched_domains, confidence_scores))"

definition keyword_text :: "row \<Rightarrow> string" where
  \<comment> \<open>\<open>combined_text = f"{title_lower} {scope_lower}"\<close>\<close>
  "keyword_text r =
     (let title_lower = lower (project_title r);
          scope_lower = lower (project_scope r)
      in title_lower @ '' '' @ scope_lower)"

definition keyword_branch ::
  "analyzer \<Rightarrow> row \<Rightarrow> string list \<times> confidence_scores \<Rightarrow> string list \<times> confidence_scores" where
  \<comment> \<open>the body of the first \<open>if not matched_domains:\<close>: the keyword scores, then the
      label the record already carries\<close>
  "keyword_branch a r acc =
     (let (matched_domains, confidence_scores) =
            domain_loop (keyword_text r) (domain_keywords a) acc
      in if matched_domains = []
         then (case existing_domain r of
                 None \<Rightarrow> (matched_domains, confidence_scores)
               | Some existing \<Rightarrow>
                   if strip existing \<noteq> []
                   then (matched_domains @ [strip existing],
                         dict_set (strip existing)
                           \<lparr>score = 1, evidence = Keywords [''manual_categorization''],
                            method_tag = ''existing_data''\<rparr>
                           confidence_scores)
                   else (matched_domains, confidence_scores))
         else (matched_domains, confidence_scores))"

record domain_result =
  project_id :: string
  result_title :: string
  domains :: "string list"
  confidence_scores :: confidence_scores
  primary_domain :: string
  categorization_method :: string

definition project_id_of :: "bool \<Rightarrow> nat \<Rightarrow> row \<Rightarrow> string" where
  \<comment> \<open>\<open>row.get('short_title', f"Project_{idx}")\<close>\<close>
  "project_id_of has_id idx r = (if has_id then short_title r else ''Project_'' @ str_nat idx)"

definition consult_gemini ::
  "analyzer \<Rightarrow> (string \<Rightarrow> string \<Rightarrow> gemini_result option) \<Rightarrow> row \<Rightarrow> gemini_result option" where
  \<comment> \<open>\<open>gemini_result\<close> of the row: the model is asked only when it exists and the title
      and the scope are non-empty\<close>
  "consult_gemini a generate r =
     (let title = project_title r;
          scope = project_scope r
      in if gemini_model a \<and> title \<noteq> [] \<and> scope \<noteq> []
         then categorize_with_gemini a generate title scope else None)"

definition gemini_step :: "gemini_result option \<Rightarrow> string list \<times> confidence_scores" where
  \<comment> \<open>\<open>matched_domains\<close> and \<open>confidence_scores\<close> after \<open>if gemini_result:\<close>\<close>
  "gemini_step gemini_result =
     (case gemini_result of
        None \<Rightarrow> ([], [])
      | Some g \<Rightarrow> if truthy gemini_result then gemini_branch g else ([], []))"

definition categorize_row ::
  "analyzer \<Rightarrow> (string \<Rightarrow> string \<Rightarrow> gemini_result option) \<Rightarrow> bool \<Rightarrow> nat \<Rightarrow> row \<Rightarrow> domain_result" where
  \<comment> \<open>one turn of the loop of \<open>categorize_by_domain\<close>, for the row at index \<open>idx\<close>\<close>
  "categorize_row a generate has_id idx r =
     (let gemini_result = consult_gemini a generate r;
          after_gemini = gemini_step gemini_result;
          after_keywords =
            (if fst after_gemini = [] then keyword_branch a r after_gemini else after_gemini);
          (matched_domains, scores) =
            (if fst after_keywords = []
             then ([''Other''],
                   dict_set ''Other'' \<lparr>score = 1, evidence = Keywords [], method_tag = ''default''\<rparr>
                     (snd after_keywords))
             else after_keywords)
      in \<lparr>project_id = project_id_of has_id idx r,
          result_title = project_title r,
          domains = matched_domains,
          confidence_scores = scores,
          primary_domain = (case matched_domains of [] \<Rightarrow> ''Other'' | d # _ \<Rightarrow> d),
          categorization_method =
            (if truthy gemini_result then ''gemini_ai'' else ''keyword_matching'')\<rparr>)"

text \<open>Notions of the claims about the resolution, for the statements below.\<close>

definition retained :: "domain_info list \<Rightarrow> string list" where
  \<comment> \<open>the names of the reported domains that are non-empty and have confidence 6 or
      more, in the reported order\<close>
  "retained ds =
     map (\<lambda>d. get (name d) [])
       (filter (\<lambda>d. get (name d) [] \<noteq> [] \<and> 6 \<le> get (confidence d) 0) ds)"

definition keyword_score :: "string \<Rightarrow> string list \<Rightarrow> nat" where
  \<comment> \<open>the sum of \<open>str.count\<close> over the keywords of a domain\<close>
  "keyword_score combined_text keywords =
     sum_list (map (\<lambda>keyword. count combined_text (lower keyword)) keywords)"

definition keyword_evidence :: "string \<Rightarrow> string list \<Rightarrow> string list" where
  \<comment> \<open>the keywords of a domain with a nonzero count\<close>
  "keyword_evidence combined_text keywords =
     filter (\<lambda>keyword. 0 < count combined_text (lower keyword)) keywords"

definition overlapping_score :: "string \<Rightarrow> string list \<Rightarrow> nat" where
  \<comment> \<open>The score in the words of the specification: the sum over the keywords of the
      number of occurrences, overlapping ones included.\<close>
  "overlapping_score combined_text keywords =
     sum_list (map (\<lambda>keyword. occurrences combined_text (lower keyword)) keywords)"

definition adapter_names ::
  "analyzer \<Rightarrow> (string \<Rightarrow> string \<Rightarrow> gemini_result option) \<Rightarrow> row \<Rightarrow> string list" where
  \<comment> \<open>the names that the answer of the model reports with confidence 6 or more for a
      record; none when the model is not asked or gives no answer\<close>
  "adapter_names a generate r =
     (case consult_gemini a generate r of
        None \<Rightarrow> []
      | Some g \<Rightarrow> retained (get (gemini_domains g) []))"

definition producing_step ::
  "analyzer \<Rightarrow> (string \<Rightarrow> string \<Rightarrow> gemini_result option) \<Rightarrow> row \<Rightarrow> string" where
  \<comment> \<open>The step of the resolution that produces the domains of a record, in the order of
      the specification: the answer of the model, the keyword scores, the label the
      record carries, the default.\<close>
  "producing_step a generate r =
     (if fst (gemini_step (consult_gemini a generate r)) \<noteq> [] then ''gemini_ai''
      else if fst (domain_loop (keyword_text r) (domain_keywords a) ([], [])) \<noteq> []
        then ''keyword_matching''
      else if (case existing_domain r of None \<Rightarrow> False | Some e \<Rightarrow> strip e \<noteq> [])
        then ''existing_data''
      else ''default'')"

definition categorize_by_domain ::
  "analyzer \<Rightarrow> (string \<Rightarrow> string \<Rightarrow> gemini_result option) \<Rightarrow> dataframe \<Rightarrow>
   domain_result list option" where
  \<comment> \<open>the loop over \<open>df.iterrows()\<close>. \<open>None\<close> is the \<open>KeyError\<close> of
      \<open>results_df['categorization_method']\<close> in the statistics after the loop, which a
      frame without rows raises: its result frame has no columns.\<close>
  "categorize_by_domain a generate df =
     (if rows df = [] then None
      else Some (map (\<lambda>(pos, r).
                   categorize_row a generate (has_short_title df) (index_label df pos) r)
                 (enumerate 0 (rows df))))"

subsection \<open>Similarity report\<close>

fun collapse_spaces :: "string \<Rightarrow> string" where
  \<comment> \<open>\<open>re.sub(r'\s+', ' ', text)\<close>: of a run of white space only its last character
      stays, as a blank\<close>
  "collapse_spaces [] = []"
| "collapse_spaces [c] = (if isspace c then '' '' else [c])"
| "collapse_spaces (c # d # s) =
     (if isspace c \<and> isspace d then collapse_spaces (d # s)
      else (if isspace c then CHR '' '' else c) # collapse_spaces (d # s))"

definition clean_text :: "string \<Rightarrow> string" where
  "clean_text text = lower (strip (collapse_spaces text))"

record similar_pair =
  project_1_id :: string
  project_2_id :: string
  similarity_score :: real
  similarity_level :: string
  overlapping_domains :: "string list"

text \<open>
  The \<open>explanation\<close> column of a pair is left out of the record: its wording takes up to
  three words from a Python set, whose iteration order the program does not fix.
\<close>

definition round_half_even :: "real \<Rightarrow> int" where
  "round_half_even x =
     (let f = \<lfloor>x\<rfloor>; d = x - of_int f
      in if d < 1 / 2 then f else if 1 / 2 < d then f + 1 else if even f then f else f + 1)"

definition round3 :: "real \<Rightarrow> real" where
  \<comment> \<open>\<open>round(similarity_score, 3)\<close>\<close>
  "round3 x = of_int (round_half_even (x * 1000)) / 1000"

definition level_of :: "real \<Rightarrow> string" where
  \<comment> \<open>the chain \<open>if similarity_score > 0.7 ... else "Low"\<close>\<close>
  "level_of s =
     (if 7 / 10 < s then ''Very High''
      else if 5 / 10 < s then ''High''
      else if 3 / 10 < s then ''Medium''
      else ''Low'')"

definition combined :: "row \<Rightarrow> string" where
  \<comment> \<open>\<open>f"{title} {scope}"\<close> of the cleaned columns\<close>
  "combined r = cleaned_title r @ '' '' @ cleaned_scope r"

fun first_domain :: "taxonomy \<Rightarrow> string \<Rightarrow> string list" where
  \<comment> \<open>the loop of \<open>get_project_domains\<close>: it returns at the first keyword found\<close>
  "first_domain [] combined_text = [''Other'']"
| "first_domain ((domain, keywords) # rest) combined_text =
     (if list_ex (\<lambda>keyword. contains combined_text (lower keyword)) keywords then [domain]
      else first_domain rest combined_text)"

definition get_project_domains :: "analyzer \<Rightarrow> string \<Rightarrow> dataframe \<Rightarrow> string list option" where
  \<comment> \<open>\<open>None\<close> is the \<open>KeyError\<close> of \<open>df[False]\<close>: without a \<open>short_title\<close> column
      \<open>df.get('short_title', '') == project_id\<close> is the plain \<open>False\<close>\<close>
  "get_project_domains a pid df =
     (if \<not> has_short_title df then None
      else case find (\<lambda>r. short_title r = pid) (rows df) of
             None \<Rightarrow> Some []
           | Some project_row \<Rightarrow> Some (first_domain (domain_keywords a) (combined project_row)))"

definition intersection :: "string list \<Rightarrow> string list \<Rightarrow> string list" where
  \<comment> \<open>\<open>list(set(xs) & set(ys))\<close>; \<open>get_project_domains\<close> returns at most one name, so
      the order of the result is that of a list of at most one element\<close>
  "intersection xs ys = remdups (filter (\<lambda>d. d \<in> set ys) xs)"

definition text_rows :: "dataframe \<Rightarrow> (nat \<times> row) list" where
  \<comment> \<open>the rows that enter \<open>texts\<close> and \<open>project_ids\<close>, with their position\<close>
  "text_rows df = filter (\<lambda>(idx, r). strip (combined r) \<noteq> []) (enumerate 0 (rows df))"

definition pair_at ::
  "analyzer \<Rightarrow> dataframe \<Rightarrow> string list \<Rightarrow> (nat \<Rightarrow> nat \<Rightarrow> real) \<Rightarrow> nat \<Rightarrow> nat \<Rightarrow> similar_pair option list" where
  \<comment> \<open>the body of the inner loop at \<open>(i, j)\<close>: nothing below the threshold, else one
      pair, or \<open>None\<close> when \<open>get_project_domains\<close> raises\<close>
  "pair_at a df project_ids similarity_matrix i j =
     (let similarity_score = similarity_matrix i j
      in if similarity_threshold a < similarity_score
         then [case get_project_domains a (project_ids ! i) df of
                 None \<Rightarrow> None
               | Some proj1_domains \<Rightarrow>
                   (case get_project_domains a (project_ids ! j) df of
                      None \<Rightarrow> None
                    | Some proj2_domains \<Rightarrow>
                        Some \<lparr>project_1_id = project_ids ! i,
                              project_2_id = project_ids ! j,
                              similarity_score = round3 similarity_score,
                              similarity_level = level_of similarity_score,
                              overlapping_domains = intersection proj1_domains proj2_domains\<rparr>)]
         else [])"

definition index_pairs :: "nat \<Rightarrow> (nat \<times> nat) list" where
  \<comment> \<open>\<open>for i in range(n): for j in range(i + 1, n)\<close>\<close>
  "index_pairs n = concat (map (\<lambda>i. map (\<lambda>j. (i, j)) [i + 1 ..< n]) [0 ..< n])"

definition similar_pairs ::
  "analyzer \<Rightarrow> dataframe \<Rightarrow> string list \<Rightarrow> (nat \<Rightarrow> nat \<Rightarrow> real) \<Rightarrow> similar_pair list option" where
  \<comment> \<open>the two loops; \<open>None\<close> when an exception left them\<close>
  "similar_pairs a df project_ids similarity_matrix =
     those (concat (map (\<lambda>(i, j). pair_at a df project_ids similarity_matrix i j)
                      (index_pairs (length project_ids))))"

definition texts_of :: "dataframe \<Rightarrow> string list" where
  \<comment> \<open>the list \<open>texts\<close> after the first loop\<close>
  "texts_of df = map (\<lambda>(idx, r). combined r) (text_rows df)"

definition project_ids_of :: "dataframe \<Rightarrow> string list" where
  \<comment> \<open>the list \<open>project_ids\<close> after the first loop\<close>
  "project_ids_of df =
     map (\<lambda>(pos, r). project_id_of (has_short_title df) (index_label df pos) r)
       (text_rows df)"

definition calculate_similarity ::
  "analyzer \<Rightarrow> (string list \<Rightarrow> (nat \<Rightarrow> nat \<Rightarrow> real) option) \<Rightarrow>
   (similar_pair list \<Rightarrow> similar_pair list) \<Rightarrow> dataframe \<Rightarrow> similar_pair list" where
  \<comment> \<open>\<open>cosine_tfidf texts\<close> is the matrix of \<open>cosine_similarity\<close> over the TF-IDF vectors
      of \<open>texts\<close>, or \<open>None\<close> when the vectorizer raises; \<open>sort_values\<close> is
      \<open>results_df.sort_values('similarity_score', ascending=False)\<close>. Every exception
      inside the \<open>try\<close> gives the empty frame.\<close>
  "calculate_similarity a cosine_tfidf sort_values df =
     (let texts = texts_of df;
          project_ids = project_ids_of df
      in if length texts < 2 then []
         else case cosine_tfidf texts of
                None \<Rightarrow> []
              | Some similarity_matrix \<Rightarrow>
                  (case similar_pairs a df project_ids similarity_matrix of
                     None \<Rightarrow> []
                   | Some pairs \<Rightarrow> if pairs = [] then [] else sort_values pairs))"


definition sort_values_stable :: "similar_pair list \<Rightarrow> similar_pair list" where
  \<comment> \<open>a descending sort that keeps rows with equal scores in their order\<close>
  "sort_values_stable pairs = sort_key (\<lambda>p. - similarity_score p) pairs"

definition load_row :: "string \<Rightarrow> string \<Rightarrow> string \<Rightarrow> row" where
  \<comment> \<open>a row as \<open>load_data\<close> builds it from the short title, the title and the scope of
      a sheet without a domain column\<close>
  "load_row short title scope =
     \<lparr>short_title = short, project_title = title, project_scope = scope,
      cleaned_title = clean_text title, cleaned_scope = clean_text scope,
      existing_domain = None\<rparr>"

subsection \<open>Bookkeeping invariant and example inputs\<close>

definition recorded :: "string \<Rightarrow> string list \<times> confidence_scores \<Rightarrow> bool" where
  \<comment> \<open>the dictionary has one entry for each listed domain and no other, and every entry
      carries the method tag \<open>m\<close>\<close>
  "recorded m acc =
     (keys (snd acc) = set (fst acc) \<and> distinct (map fst (snd acc)) \<and>
      (\<forall>e \<in> set (snd acc). method_tag (snd e) = m))"

definition analyzer_with_model :: analyzer where
  \<comment> \<open>an analyzer whose Gemini model was created\<close>
  "analyzer_with_model = init (Some ''key'') True True"

definition analyzer_keyword_only :: analyzer where
  \<comment> \<open>\<open>FYPAnalyzer()\<close> without a key, as \<open>main\<close> builds it\<close>
  "analyzer_keyword_only = init None False False"

definition row_portal :: row where
  "row_portal = load_row ''P1'' ''Campus portal'' ''A website for students''"

definition row_empty :: row where
  "row_empty = load_row ''P2'' '''' ''''"

definition row_saas :: row where
  "row_saas = load_row ''P3'' ''saasaas'' ''''"

definition answer_no_domains :: "string \<Rightarrow> string \<Rightarrow> gemini_result option" where
  "answer_no_domains title scope =
     Some \<lparr>gemini_domains = Some [], gemini_primary_domain = None, gemini_summary = None\<rparr>"

definition answer_repeated :: "string \<Rightarrow> string \<Rightarrow> gemini_result option" where
  "answer_repeated title scope =
     Some \<lparr>gemini_domains =
             Some [\<lparr>name = Some ''Web Development'', confidence = Some 8, reasoning = Some ''a website''\<rparr>,
                   \<lparr>name = Some ''Web Development'', confidence = Some 7, reasoning = Some ''a portal''\<rparr>],
           gemini_primary_domain = Some ''Web Development'',
           gemini_summary = Some ''web''\<rparr>"

definition answer_primary_second :: "string \<Rightarrow> string \<Rightarrow> gemini_result option" where
  "answer_primary_second title scope =
     Some \<lparr>gemini_domains =
             Some [\<lparr>name = Some ''Web Development'', confidence = Some 8, reasoning = Some ''a website''\<rparr>,
                   \<lparr>name = Some ''Education & E-learning'', confidence = Some 9, reasoning = Some ''for students''\<rparr>],
           gemini_primary_domain = Some ''Education & E-learning'',
           gemini_summary = Some ''education''\<rparr>"


definition cosine_const :: "real \<Rightarrow> string list \<Rightarrow> (nat \<Rightarrow> nat \<Rightarrow> real) option" where
  \<comment> \<open>a vectorizer under which every two texts have the cosine \<open>c\<close>\<close>
  "cosine_const c texts = Some (\<lambda>i j. c)"

definition row_chat :: row where
  "row_chat = load_row ''P4'' ''Student chat website'' ''A web forum for students''"

definition row_school :: row where
  "row_school = load_row ''P5'' ''School web portal'' ''Students chat on the website''"

definition frame_two :: dataframe where
  "frame_two =
     \<lparr>has_short_title = True, index_label = (\<lambda>pos. pos), rows = [row_chat, row_school]\<rparr>"

definition row_chat_again :: row where
  \<comment> \<open>a second project with the title and the scope of \<open>row_chat\<close>\<close>
  "row_chat_again = load_row ''P5'' ''Student chat website'' ''A web forum for students''"

definition row_wallet :: row where
  "row_wallet = load_row ''P6'' ''Blockchain wallet'' ''Bitcoin payment ledger''"

definition frame_three :: dataframe where
  "frame_three =
     \<lparr>has_short_title = True, index_label = (\<lambda>pos. pos),
      rows = [row_chat, row_chat_again, row_wallet]\<rparr>"

definition cosine_equal_or_disjoint :: "string list \<Rightarrow> (nat \<Rightarrow> nat \<Rightarrow> real) option" where
  \<comment> \<open>the cosine matrix of a corpus in which any two texts are equal or have no term in
      common, like that of \<open>frame_three\<close>: equal texts have equal vectors, of cosine 1,
      and texts without a common term have orthogonal vectors, of cosine 0. With three
      texts the terms of the two equal ones occur in two thirds of the documents and pass
      \<open>max_df=0.95\<close>.\<close>
  "cosine_equal_or_disjoint texts = Some (\<lambda>i j. if texts ! i = texts ! j then 1 else 0)"

definition frame_one :: dataframe where
  "frame_one =
     \<lparr>has_short_title = True, index_label = (\<lambda>pos. pos), rows = [row_portal, row_empty]\<rparr>"

section \<open>Properties\<close>

subsection \<open>Dictionaries and the loops of the categorisation\<close>

lemma keys_dict_set: "keys (dict_set k v d) = insert k (keys d)"
proof (induction d)
  case Nil
  show ?case by (simp add: keys_def)
next
  case (Cons p d)
  obtain k' v' where p: "p = (k', v')" by (cases p)
  from Cons show ?case unfolding p keys_def by (cases "k' = k") auto
qed

lemma dict_set_fresh: "k \<notin> keys d \<Longrightarrow> dict_set k v d = d @ [(k, v)]"
  by (induction d) (auto simp: keys_def)

lemma distinct_dict_set: "distinct (map fst d) \<Longrightarrow> distinct (map fst (dict_set k v d))"
proof (induction d)
  case Nil
  then show ?case by simp
next
  case (Cons p d)
  obtain k' v' where p: "p = (k', v')" by (cases p)
  have "fst ` set (dict_set k v d) = insert k (fst ` set d)"
    using keys_dict_set [of k v d] by (simp add: keys_def)
  with Cons p show ?case by auto
qed

lemma set_dict_set: "set (dict_set k v d) \<subseteq> insert (k, v) (set d)"
  by (induction d) (auto split: if_splits)

lemma recorded_empty: "recorded m ([], [])"
  by (simp add: recorded_def keys_def)

lemma recorded_step:
  assumes "recorded m (md, cs)" and "method_tag e = m"
  shows "recorded m (md @ [n], dict_set n e cs)" and "recorded m (n # md, dict_set n e cs)"
  using assms set_dict_set [of n e cs]
  by (auto simp: recorded_def keys_dict_set distinct_dict_set)

lemma recorded_nil: "recorded m acc \<Longrightarrow> fst acc = [] \<Longrightarrow> acc = ([], [])"
  by (cases acc) (auto simp: recorded_def keys_def)

lemma gemini_loop_recorded: "recorded ''gemini_ai'' acc \<Longrightarrow> recorded ''gemini_ai'' (gemini_loop ds acc)"
proof (induction ds arbitrary: acc)
  case Nil
  then show ?case by simp
next
  case (Cons d ds)
  obtain md cs where acc: "acc = (md, cs)" by (cases acc)
  show ?case
    using Cons.prems unfolding acc
    by (auto simp: Let_def intro!: Cons.IH recorded_step)
qed

lemma gemini_loop_fst: "fst (gemini_loop ds (md, cs)) = md @ retained ds"
  by (induction ds arbitrary: md cs) (auto simp: retained_def Let_def)

lemma gemini_branch_fst:
  "fst (gemini_branch g) =
     (let ds = retained (get (gemini_domains g) []); p = get (gemini_primary_domain g) []
      in if p \<noteq> [] \<and> p \<notin> set ds then p # ds else ds)"
  using gemini_loop_fst [of "get (gemini_domains g) []" "[]" "[]"]
  by (auto simp: gemini_branch_def Let_def split: prod.splits)

lemma gemini_branch_recorded: "recorded ''gemini_ai'' (gemini_branch g)"
proof -
  have "recorded ''gemini_ai'' (gemini_loop (get (gemini_domains g) []) ([], []))"
    by (rule gemini_loop_recorded [OF recorded_empty])
  then show ?thesis
    by (auto simp: gemini_branch_def Let_def split: prod.splits intro!: recorded_step)
qed

lemma gemini_step_recorded: "recorded ''gemini_ai'' (gemini_step gr)"
  by (auto simp: gemini_step_def gemini_branch_recorded recorded_empty split: option.splits)

lemma keyword_loop_eq:
  "keyword_loop text ks (sc, mk) = (sc + keyword_score text ks, mk @ keyword_evidence text ks)"
  by (induction ks arbitrary: sc mk) (auto simp: keyword_score_def keyword_evidence_def Let_def)

lemma domain_loop_recorded:
  "recorded ''keyword_matching'' acc \<Longrightarrow> recorded ''keyword_matching'' (domain_loop text tax acc)"
proof (induction tax arbitrary: acc)
  case Nil
  then show ?case by simp
next
  case (Cons t tax)
  obtain md cs where acc: "acc = (md, cs)" by (cases acc)
  obtain d ks where t: "t = (d, ks)" by (cases t)
  show ?case
    using Cons.prems unfolding acc t
    by (auto simp: Let_def keyword_loop_eq intro!: Cons.IH recorded_step)
qed

lemma domain_loop_fst:
  "fst (domain_loop text tax (md, cs)) =
     md @ map fst (filter (\<lambda>(d, ks). 0 < keyword_score text ks) tax)"
  by (induction tax arbitrary: md cs) (auto simp: Let_def keyword_loop_eq)

lemma domain_loop_snd:
  "distinct (map fst tax) \<Longrightarrow> keys cs \<inter> fst ` set tax = {} \<Longrightarrow>
   snd (domain_loop text tax (md, cs)) =
     cs @ map (\<lambda>(d, ks). (d, \<lparr>score = int (keyword_score text ks),
                              evidence = Keywords (keyword_evidence text ks),
                              method_tag = ''keyword_matching''\<rparr>))
            (filter (\<lambda>(d, ks). 0 < keyword_score text ks) tax)"
proof (induction tax arbitrary: md cs)
  case Nil
  then show ?case by simp
next
  case (Cons t tax)
  obtain d ks where t: "t = (d, ks)" by (cases t)
  from Cons.prems have fresh: "d \<notin> keys cs" and dist: "distinct (map fst tax)"
    and d: "d \<notin> fst ` set tax" and disj: "keys cs \<inter> fst ` set tax = {}"
    by (auto simp: t)
  show ?case
  proof (cases "0 < keyword_score text ks")
    case True
    have "keys (cs @ [(d, e)]) \<inter> fst ` set tax = {}" for e
      using d disj by (auto simp: keys_def)
    from Cons.IH [OF dist this] True fresh show ?thesis
      by (simp add: t Let_def keyword_loop_eq dict_set_fresh)
  next
    case False
    with Cons.IH [OF dist disj] show ?thesis
      by (simp add: t Let_def keyword_loop_eq)
  qed
qed

lemma keyword_branch_eq:
  "keyword_branch a r ([], []) =
     (let kw = domain_loop (keyword_text r) (domain_keywords a) ([], [])
      in if fst kw \<noteq> [] then kw
         else case existing_domain r of
                None \<Rightarrow> ([], [])
              | Some e \<Rightarrow>
                  if strip e \<noteq> []
                  then ([strip e],
                        [(strip e, \<lparr>score = 1, evidence = Keywords [''manual_categorization''],
                                     method_tag = ''existing_data''\<rparr>)])
                  else ([], []))"
proof -
  let ?kw = "domain_loop (keyword_text r) (domain_keywords a) ([], [])"
  have "recorded ''keyword_matching'' ?kw"
    by (rule domain_loop_recorded [OF recorded_empty])
  then have nil: "fst ?kw = [] \<Longrightarrow> ?kw = ([], [])"
    by (rule recorded_nil)
  show ?thesis
  proof (cases "fst ?kw = []")
    case True
    with nil have "?kw = ([], [])" by simp
    then show ?thesis
      by (simp add: keyword_branch_def Let_def split: option.splits)
  next
    case False
    then show ?thesis
      by (auto simp: keyword_branch_def Let_def split: prod.splits)
  qed
qed

lemma categorize_row_eq:
  "(domains (categorize_row a generate has_id idx r),
    confidence_scores (categorize_row a generate has_id idx r)) =
     (let ai = gemini_step (consult_gemini a generate r);
          kw = domain_loop (keyword_text r) (domain_keywords a) ([], [])
      in if fst ai \<noteq> [] then ai
         else if fst kw \<noteq> [] then kw
         else if (case existing_domain r of None \<Rightarrow> False | Some e \<Rightarrow> strip e \<noteq> [])
           then ([strip (the (existing_domain r))],
                 [(strip (the (existing_domain r)),
                   \<lparr>score = 1, evidence = Keywords [''manual_categorization''],
                    method_tag = ''existing_data''\<rparr>)])
         else ([''Other''],
               [(''Other'', \<lparr>score = 1, evidence = Keywords [], method_tag = ''default''\<rparr>)]))"
proof -
  let ?ai = "gemini_step (consult_gemini a generate r)"
  have nil: "fst ?ai = [] \<Longrightarrow> ?ai = ([], [])"
    by (rule recorded_nil [OF gemini_step_recorded])
  show ?thesis
  proof (cases "fst ?ai = []")
    case True
    with nil have ai: "?ai = ([], [])" by simp
    show ?thesis
      by (auto simp: categorize_row_def Let_def ai keyword_branch_eq split: option.splits prod.splits)
  next
    case False
    then show ?thesis
      by (auto simp: categorize_row_def Let_def split: prod.splits)
  qed
qed

lemma categorize_row_recorded:
  "recorded (producing_step a generate r)
     (domains (categorize_row a generate has_id idx r),
      confidence_scores (categorize_row a generate has_id idx r))"
proof -
  have kw: "recorded ''keyword_matching'' (domain_loop (keyword_text r) (domain_keywords a) ([], []))"
    by (rule domain_loop_recorded [OF recorded_empty])
  have one: "recorded m ([n], [(n, e)])" if "method_tag e = m" for m n e
    using that by (simp add: recorded_def keys_def)
  show ?thesis
    unfolding categorize_row_eq producing_step_def Let_def
    using gemini_step_recorded [of "consult_gemini a generate r"] kw
    by (auto intro!: one)
qed

lemma gemini_step_truthy: "fst (gemini_step g) \<noteq> [] \<Longrightarrow> truthy g"
  by (auto simp: gemini_step_def split: option.splits if_splits)


lemma gemini_step_fst_distinct:
  "distinct (case gr of None \<Rightarrow> [] | Some g \<Rightarrow> retained (get (gemini_domains g) [])) \<Longrightarrow>
   distinct (fst (gemini_step gr))"
  by (auto simp: gemini_step_def gemini_branch_fst Let_def split: option.splits)

lemma domain_loop_fst_distinct:
  "distinct (map fst tax) \<Longrightarrow> distinct (fst (domain_loop text tax ([], [])))"
  by (simp add: domain_loop_fst distinct_map_filter)


subsection \<open>Rounding, the pair loops and the sorters\<close>











lemma text_rows_rows:
  "map snd (filter (\<lambda>(idx, r). P r) (enumerate n xs)) = filter P xs"
  by (induction xs arbitrary: n) auto

lemma texts_of_eq:
  "texts_of df = map combined (filter (\<lambda>r. strip (combined r) \<noteq> []) (rows df))"
proof -
  have "texts_of df = map combined (map snd (text_rows df))"
    by (simp add: texts_of_def case_prod_unfold comp_def)
  then show ?thesis
    by (simp add: text_rows_def text_rows_rows)
qed



subsection \<open>Claims on the categorisation\<close>

text \<open>
  Claim C10. For every record and every resolution path, the names that key the
  per-domain confidence mapping are exactly the names in \<open>matched_domains\<close>: every
  matched domain has its entry (score, evidence, method tag), no other name has one,
  and no name has two.
\<close>

theorem confidence_keys_are_matched_domains:
  "keys (confidence_scores (categorize_row a generate has_id idx r)) =
     set (domains (categorize_row a generate has_id idx r)) \<and>
   distinct (map fst (confidence_scores (categorize_row a generate has_id idx r)))"
  using categorize_row_recorded [of a generate r has_id idx]
  by (simp add: recorded_def)

text \<open>
  Claim C1 as stated fails by the design of the record's tag, which has two values only:
  the record with empty title and scope gets its domain from the default step, and its
  tag is \<open>keyword_matching\<close>, not \<open>default\<close>.
\<close>

theorem default_tag_counterexample:
  "producing_step analyzer_keyword_only answer_no_domains row_empty = ''default'' \<and>
   categorization_method (categorize_row analyzer_keyword_only answer_no_domains True 1 row_empty) =
     ''keyword_matching''"
  by code_simp

text \<open>
  Claim C1, amended. The method tag of every entry of the confidence mapping names the
  step that produced the domains of the record (\<open>gemini_ai\<close>, \<open>keyword_matching\<close>,
  \<open>existing_data\<close> or \<open>default\<close>). The tag of the record is \<open>gemini_ai\<close> whenever
  the answer of the model produced the domains, and it is \<open>keyword_matching\<close> whenever
  the model gave no answer (no model, empty title or scope, failed call, empty object),
  whichever of the keywords, the existing label and the default then produced them.
  Nothing is said of an answer that retains no domain.
\<close>

theorem method_tags:
  "(\<forall>e \<in> set (confidence_scores (categorize_row a generate has_id idx r)).
      method_tag (snd e) = producing_step a generate r) \<and>
   (producing_step a generate r = ''gemini_ai'' \<longrightarrow>
      categorization_method (categorize_row a generate has_id idx r) = ''gemini_ai'') \<and>
   (\<not> truthy (consult_gemini a generate r) \<longrightarrow>
      categorization_method (categorize_row a generate has_id idx r) = ''keyword_matching'' \<and>
      producing_step a generate r \<noteq> ''gemini_ai'')"
proof (intro conjI impI)
  show "\<forall>e \<in> set (confidence_scores (categorize_row a generate has_id idx r)).
      method_tag (snd e) = producing_step a generate r"
    using categorize_row_recorded [of a generate r has_id idx]
    by (simp add: recorded_def)
next
  assume "producing_step a generate r = ''gemini_ai''"
  then have "fst (gemini_step (consult_gemini a generate r)) \<noteq> []"
    by (simp add: producing_step_def split: if_splits)
  then have "truthy (consult_gemini a generate r)"
    by (rule gemini_step_truthy)
  then show "categorization_method (categorize_row a generate has_id idx r) = ''gemini_ai''"
    by (simp add: categorize_row_def Let_def split: prod.splits)
next
  assume no: "\<not> truthy (consult_gemini a generate r)"
  then show "categorization_method (categorize_row a generate has_id idx r) = ''keyword_matching''"
    by (simp add: categorize_row_def Let_def split: prod.splits)
  from no gemini_step_truthy have "fst (gemini_step (consult_gemini a generate r)) = []"
    by blast
  then show "producing_step a generate r \<noteq> ''gemini_ai''"
    by (simp add: producing_step_def)
qed

text \<open>
  The amended claim C1 at the record "Campus portal": once with an answer of the model
  that produces the domains, once without a model.
\<close>

theorem method_tags_witness:
  "producing_step analyzer_with_model answer_primary_second row_portal = ''gemini_ai'' \<and>
   categorization_method
     (categorize_row analyzer_with_model answer_primary_second True 0 row_portal) = ''gemini_ai'' \<and>
   \<not> truthy (consult_gemini analyzer_keyword_only answer_no_domains row_portal) \<and>
   categorization_method
     (categorize_row analyzer_keyword_only answer_no_domains True 0 row_portal) =
     ''keyword_matching'' \<and>
   (''Web Development'',
     \<lparr>score = 2, evidence = Keywords [''web'', ''website''], method_tag = ''keyword_matching''\<rparr>)
     \<in> set (confidence_scores
          (categorize_row analyzer_keyword_only answer_no_domains True 0 row_portal)) \<and>
   producing_step analyzer_keyword_only answer_no_domains row_portal = ''keyword_matching''"
proof -
  let ?e = "(''Web Development'',
     \<lparr>score = 2, evidence = Keywords [''web'', ''website''], method_tag = ''keyword_matching''\<rparr>)"
  have ai: "producing_step analyzer_with_model answer_primary_second row_portal = ''gemini_ai''"
    by code_simp
  have no: "\<not> truthy (consult_gemini analyzer_keyword_only answer_no_domains row_portal)"
    by code_simp
  have mem: "?e \<in> set (confidence_scores
      (categorize_row analyzer_keyword_only answer_no_domains True 0 row_portal))"
    by code_simp
  from method_tags [of analyzer_with_model answer_primary_second True 0 row_portal] ai
  have t1: "categorization_method
     (categorize_row analyzer_with_model answer_primary_second True 0 row_portal) = ''gemini_ai''"
    by blast
  from method_tags [of analyzer_keyword_only answer_no_domains True 0 row_portal] no
  have t2: "categorization_method
     (categorize_row analyzer_keyword_only answer_no_domains True 0 row_portal) =
     ''keyword_matching''"
    by blast
  from method_tags [of analyzer_keyword_only answer_no_domains True 0 row_portal] mem
  have "method_tag (snd ?e) = producing_step analyzer_keyword_only answer_no_domains row_portal"
    by blast
  then have t3: "producing_step analyzer_keyword_only answer_no_domains row_portal = ''keyword_matching''"
    by simp
  from ai no mem t1 t2 t3 show ?thesis by blast
qed

text \<open>
  Claim C6: \<open>matched_domains\<close> is non-empty and has no duplicates, whatever the model
  answers. The code at an answer that reports one domain twice with confidence 6 or more:
  the loop over the reported domains appends both, without the membership test that the
  primary domain gets (\<open>primary_domain not in matched_domains\<close>), and the name stands
  twice in \<open>matched_domains\<close>.
\<close>

theorem repeated_name_gives_duplicate:
  "domains (categorize_row analyzer_with_model answer_repeated True 0 row_portal) =
     [''Web Development'', ''Web Development''] \<and>
   \<not> distinct (domains (categorize_row analyzer_with_model answer_repeated True 0 row_portal))"
  by code_simp

text \<open>
  On every path the list is non-empty, it is \<open>["Other"]\<close> when no step finds a domain,
  and duplicates can only come from names that the answer of the model repeats.
\<close>

lemma matched_domains_nonempty:
  "domains (categorize_row a generate has_id idx r) \<noteq> [] \<and>
   (distinct (map fst (domain_keywords a)) \<and> distinct (adapter_names a generate r) \<longrightarrow>
      distinct (domains (categorize_row a generate has_id idx r))) \<and>
   (producing_step a generate r = ''default'' \<longrightarrow>
      domains (categorize_row a generate has_id idx r) = [''Other''])"
proof -
  let ?res = "categorize_row a generate has_id idx r"
  let ?ai = "gemini_step (consult_gemini a generate r)"
  let ?kw = "domain_loop (keyword_text r) (domain_keywords a) ([], [])"
  have eq: "domains ?res =
     (if fst ?ai \<noteq> [] then fst ?ai
      else if fst ?kw \<noteq> [] then fst ?kw
      else if (case existing_domain r of None \<Rightarrow> False | Some e \<Rightarrow> strip e \<noteq> [])
        then [strip (the (existing_domain r))]
      else [''Other''])"
    using arg_cong [OF categorize_row_eq [of a generate has_id idx r], of fst]
    by (simp add: Let_def)
  have ne: "domains ?res \<noteq> []"
    unfolding eq by simp
  have dist: "distinct (domains ?res)"
    if "distinct (map fst (domain_keywords a))" "distinct (adapter_names a generate r)"
  proof -
    from that(2) have "distinct (fst ?ai)"
      unfolding adapter_names_def by (rule gemini_step_fst_distinct)
    moreover from that(1) have "distinct (fst ?kw)"
      by (rule domain_loop_fst_distinct)
    ultimately show ?thesis
      unfolding eq by simp
  qed
  have other: "domains ?res = [''Other'']" if "producing_step a generate r = ''default''"
    using that unfolding eq producing_step_def by (simp split: if_splits)
  from ne dist other show ?thesis by blast
qed

text \<open>
  Claim C4: in the result of the model's path the designated primary domain is the first
  entry of \<open>matched_domains\<close>, also when it was reported with confidence 6 or more
  itself. The code at an answer whose primary domain is reported second: the guard
  \<open>primary_domain not in matched_domains\<close> leaves it second, and the record's
  \<open>primary_domain\<close> is the other name.
\<close>

theorem primary_domain_not_first:
  "answer_primary_second (project_title row_portal) (project_scope row_portal) =
     Some \<lparr>gemini_domains =
             Some [\<lparr>name = Some ''Web Development'', confidence = Some 8, reasoning = Some ''a website''\<rparr>,
                   \<lparr>name = Some ''Education & E-learning'', confidence = Some 9, reasoning = Some ''for students''\<rparr>],
           gemini_primary_domain = Some ''Education & E-learning'',
           gemini_summary = Some ''education''\<rparr> \<and>
   domains (categorize_row analyzer_with_model answer_primary_second True 0 row_portal) =
     [''Web Development'', ''Education & E-learning''] \<and>
   primary_domain (categorize_row analyzer_with_model answer_primary_second True 0 row_portal) =
     ''Web Development'' \<and>
   categorization_method (categorize_row analyzer_with_model answer_primary_second True 0 row_portal) =
     ''gemini_ai''"
  by code_simp

text \<open>
  Claim C7 as stated fails: \<open>str.count\<close> does not count overlapping occurrences. The
  text \<open>saasaas\<close> holds the keyword \<open>saas\<close> at two overlapping places and the score of
  its domain is 1.
\<close>

theorem overlapping_count_counterexample:
  "domain_loop (keyword_text row_saas) (domain_keywords analyzer_keyword_only) ([], []) =
     ([''Cloud Computing''],
      [(''Cloud Computing'',
        \<lparr>score = 1, evidence = Keywords [''saas''], method_tag = ''keyword_matching''\<rparr>)]) \<and>
   map (\<lambda>(d, ks). (d, overlapping_score (keyword_text row_saas) ks))
     (filter (\<lambda>(d, ks). d = ''Cloud Computing'') (domain_keywords analyzer_keyword_only)) =
     [(''Cloud Computing'', 2)]"
  by code_simp

text \<open>
  Claim C7, amended. In the keyword fallback the score of a domain is the sum, over its
  keywords, of \<open>str.count\<close> of the lower-cased keyword in the lower-cased title, a blank
  and the lower-cased scope: the occurrences found from left to right without overlap. A
  domain is emitted iff this score is positive, its evidence is the list of its keywords
  with a nonzero count, and the emitted domains stand in the order of the taxonomy.
\<close>

theorem keyword_fallback_scores:
  assumes "distinct (map fst (domain_keywords a))"
  shows "domain_loop (keyword_text r) (domain_keywords a) ([], []) =
     (map fst (filter (\<lambda>(d, ks). 0 < keyword_score (keyword_text r) ks) (domain_keywords a)),
      map (\<lambda>(d, ks). (d, \<lparr>score = int (keyword_score (keyword_text r) ks),
                             evidence = Keywords (keyword_evidence (keyword_text r) ks),
                             method_tag = ''keyword_matching''\<rparr>))
        (filter (\<lambda>(d, ks). 0 < keyword_score (keyword_text r) ks) (domain_keywords a)))"
proof -
  have "keys ([] :: confidence_scores) \<inter> fst ` set (domain_keywords a) = {}"
    by (simp add: keys_def)
  from domain_loop_snd [OF assms this, of "keyword_text r" "[]"]
    domain_loop_fst [of "keyword_text r" "domain_keywords a" "[]" "[]"]
  show ?thesis
    by (simp add: prod_eq_iff)
qed

text \<open>
  The amended claim C7 at the predefined taxonomy and the record "Campus portal".
\<close>

theorem keyword_fallback_scores_witness:
  "distinct (map fst (domain_keywords analyzer_keyword_only)) \<and>
   (map fst (filter (\<lambda>(d, ks). 0 < keyword_score (keyword_text row_portal) ks)
               (domain_keywords analyzer_keyword_only)),
    map (\<lambda>(d, ks). (d, \<lparr>score = int (keyword_score (keyword_text row_portal) ks),
                           evidence = Keywords (keyword_evidence (keyword_text row_portal) ks),
                           method_tag = ''keyword_matching''\<rparr>))
      (filter (\<lambda>(d, ks). 0 < keyword_score (keyword_text row_portal) ks)
             (domain_keywords analyzer_keyword_only))) =
     ([''Web Development'', ''Education & E-learning''],
      [(''Web Development'',
        \<lparr>score = 2, evidence = Keywords [''web'', ''website''], method_tag = ''keyword_matching''\<rparr>),
       (''Education & E-learning'',
        \<lparr>score = 1, evidence = Keywords [''student''], method_tag = ''keyword_matching''\<rparr>)])"
proof -
  have h: "distinct (map fst (domain_keywords analyzer_keyword_only))"
    by code_simp
  have v: "domain_loop (keyword_text row_portal) (domain_keywords analyzer_keyword_only) ([], []) =
     ([''Web Development'', ''Education & E-learning''],
      [(''Web Development'',
        \<lparr>score = 2, evidence = Keywords [''web'', ''website''], method_tag = ''keyword_matching''\<rparr>),
       (''Education & E-learning'',
        \<lparr>score = 1, evidence = Keywords [''student''], method_tag = ''keyword_matching''\<rparr>)])"
    by code_simp
  show ?thesis
    using h trans [OF sym [OF keyword_fallback_scores [OF h, of row_portal]] v]
    by (rule conjI)
qed


subsection \<open>Claim on the constructor\<close>

text \<open>
  Claim C2 as stated fails: the constructor takes neither a taxonomy nor a threshold and
  checks nothing. The threshold is assigned afterwards, and 1.5 is accepted; the analysis
  then runs and reports no pair, even for two texts of cosine 1.
\<close>

theorem unchecked_threshold_counterexample:
  "similarity_threshold (set_similarity_threshold (3 / 2) (init None False False)) = 3 / 2 \<and>
   \<not> (3 / 2 :: real) \<le> 1 \<and>
   calculate_similarity (set_similarity_threshold (3 / 2) (init None False False))
     (cosine_const 1) sort_values_stable frame_two = []"
  by code_simp

text \<open>
  Claim C2, amended. Construction succeeds for every argument: the constructor returns an
  analyzer with the threshold 0.3, which lies in [0, 1], and the predefined taxonomy of
  15 domains. A later assignment of the threshold stores any value unchecked.
\<close>

theorem construction_succeeds:
  "similarity_threshold (init api_key available genai_ok) = 3 / 10 \<and>
   0 \<le> similarity_threshold (init api_key available genai_ok) \<and>
   similarity_threshold (init api_key available genai_ok) \<le> 1 \<and>
   domain_keywords (init api_key available genai_ok) = predefined_domain_keywords \<and>
   length (domain_keywords (init api_key available genai_ok)) = 15 \<and>
   similarity_threshold (set_similarity_threshold t (init api_key available genai_ok)) = t"
  by (simp add: init_def set_similarity_threshold_def predefined_domain_keywords_def)


subsection \<open>Claims on the similarity report\<close>

text \<open>
  Claim C9. With fewer than two records whose combined cleaned text is non-empty the
  similarity computation returns the empty result, whatever the vectorizer and the sorter
  would do; and the texts that are compared are those of the records with a non-empty
  combined text, so the other records take no part.
\<close>

theorem too_few_texts_empty_result:
  "texts_of df = map combined (filter (\<lambda>r. strip (combined r) \<noteq> []) (rows df)) \<and>
   (length (filter (\<lambda>r. strip (combined r) \<noteq> []) (rows df)) < 2 \<longrightarrow>
      calculate_similarity a cosine_tfidf sort_values df = [])"
proof -
  have "length (texts_of df) = length (filter (\<lambda>r. strip (combined r) \<noteq> []) (rows df))"
    by (simp add: texts_of_eq)
  then show ?thesis
    by (simp add: texts_of_eq [symmetric] calculate_similarity_def Let_def)
qed

text \<open>
  Claim C9 at a frame with one record with text and one without.
\<close>

theorem too_few_texts_empty_result_witness:
  "length (filter (\<lambda>r. strip (combined r) \<noteq> []) (rows frame_one)) < 2 \<and>
   texts_of frame_one = [''campus portal a website for students''] \<and>
   calculate_similarity analyzer_keyword_only (cosine_const 1) sort_values_stable frame_one = []"
proof -
  have h: "length (filter (\<lambda>r. strip (combined r) \<noteq> []) (rows frame_one)) < 2"
    by code_simp
  have t: "map combined (filter (\<lambda>r. strip (combined r) \<noteq> []) (rows frame_one)) =
      [''campus portal a website for students'']"
    by code_simp
  from too_few_texts_empty_result
    [of frame_one analyzer_keyword_only "cosine_const 1" sort_values_stable] h t
  show ?thesis by simp
qed




text \<open>
  Claim C5: \<open>overlapping_domains\<close> is the intersection of the two records' full
  \<open>matched_domains\<close>. The code at three records, of which the first two have the same
  title and scope and the third shares no word with them: the one reported pair is that
  of the first two, the categorisation assigns both to the same three domains, and the
  pair reports one common domain, because \<open>get_project_domains\<close> returns at the first
  keyword found.
\<close>

theorem overlapping_domains_first_match_only:
  "calculate_similarity analyzer_keyword_only cosine_equal_or_disjoint sort_values_stable
     frame_three =
     [\<lparr>project_1_id = ''P4'', project_2_id = ''P5'', similarity_score = 1,
       similarity_level = ''Very High'', overlapping_domains = [''Web Development'']\<rparr>] \<and>
   map_option (map domains)
     (categorize_by_domain analyzer_keyword_only answer_no_domains frame_three) =
     Some [ [''Web Development'', ''Education & E-learning'', ''Social Media & Communication''],
            [''Web Development'', ''Education & E-learning'', ''Social Media & Communication''],
            [''Artificial Intelligence & Machine Learning'', ''Blockchain & Cryptocurrency'',
             ''E-commerce & Business'']]"
  by code_simp

end
